theory Spec2Isabelle
  imports Complex_Main "HOL-Library.Word" "HOL-Library.Multiset"
begin

section \<open>JavaScript numbers\<close>

text \<open>
  The handlers compute with JavaScript numbers. A finite number is read as the real number
  it denotes and arithmetic on finite numbers is exact: the rounding of each operation to
  binary64, overflow and the sign of zero are not modelled, so that a result of the program
  can differ from the one computed here in its last binary digits, and after
  \<open>Math.round\<close> by one unit where the exact value is within that rounding error of a tie.
  What is modelled is the part of IEEE arithmetic that the handlers can reach with finite
  inputs: a division whose divisor is zero yields \<open>Infinity\<close>, \<open>-Infinity\<close> or
  \<open>NaN\<close>, and these values propagate.
\<close>

datatype jsnum = Finite real | PosInfinity | NegInfinity | NaN


fun js_neg :: "jsnum \<Rightarrow> jsnum" where
  "js_neg (Finite x) = Finite (- x)"
| "js_neg PosInfinity = NegInfinity"
| "js_neg NegInfinity = PosInfinity"
| "js_neg NaN = NaN"

text \<open>\<open>a - b\<close>\<close>

fun js_sub :: "jsnum \<Rightarrow> jsnum \<Rightarrow> jsnum" where
  "js_sub (Finite a) (Finite b) = Finite (a - b)"
| "js_sub NaN b = NaN"
| "js_sub a NaN = NaN"
| "js_sub (Finite a) b = js_neg b"
| "js_sub a (Finite b) = a"
| "js_sub a b = (if a = b then NaN else a)"

text \<open>\<open>a * b\<close>\<close>

fun js_mul :: "jsnum \<Rightarrow> jsnum \<Rightarrow> jsnum" where
  "js_mul (Finite a) (Finite b) = Finite (a * b)"
| "js_mul NaN b = NaN"
| "js_mul a NaN = NaN"
| "js_mul (Finite a) b = (if a = 0 then NaN else if 0 < a then b else js_neg b)"
| "js_mul a (Finite b) = (if b = 0 then NaN else if 0 < b then a else js_neg a)"
| "js_mul a b = (if a = b then PosInfinity else NegInfinity)"

text \<open>\<open>a / b\<close>; a zero divisor is the positive zero.\<close>

fun js_div :: "jsnum \<Rightarrow> jsnum \<Rightarrow> jsnum" where
  "js_div (Finite a) (Finite b) =
     (if b \<noteq> 0 then Finite (a / b)
      else if 0 < a then PosInfinity
      else if a < 0 then NegInfinity
      else NaN)"
| "js_div NaN b = NaN"
| "js_div a NaN = NaN"
| "js_div (Finite a) b = Finite 0"
| "js_div a (Finite b) = (if b < 0 then js_neg a else a)"
| "js_div a b = NaN"

text \<open>
  \<open>Math.round(x)\<close>: the integer nearest to \<open>x\<close>, a tie going towards \<open>+Infinity\<close>;
  \<open>Infinity\<close>, \<open>-Infinity\<close> and \<open>NaN\<close> are returned as they are.
\<close>

fun Math_round :: "jsnum \<Rightarrow> jsnum" where
  "Math_round (Finite x) = Finite (of_int \<lfloor>x + 1 / 2\<rfloor>)"
| "Math_round PosInfinity = PosInfinity"
| "Math_round NegInfinity = NegInfinity"
| "Math_round NaN = NaN"

section \<open>Amortization (get\_mortgage\_quotes.ts)\<close>

text \<open>
  \<open>calculateMonthlyPayment(loanAmount, interestRate, loanTermYears)\<close>. The monthly rate
  and the powers are finite for finite arguments and are computed in the reals; the two
  divisions whose divisor can be zero are JavaScript divisions.
\<close>

definition calculateMonthlyPayment :: "real \<Rightarrow> real \<Rightarrow> nat \<Rightarrow> jsnum" where
  "calculateMonthlyPayment loanAmount interestRate loanTermYears =
     (let monthlyRate = interestRate / 100 / 12;
          numberOfPayments = loanTermYears * 12
      in if monthlyRate = 0 then
           js_div (Finite loanAmount) (Finite (real numberOfPayments))
         else
           let monthlyPayment =
                 js_div (Finite (loanAmount * (monthlyRate * (1 + monthlyRate) ^ numberOfPayments)))
                        (Finite ((1 + monthlyRate) ^ numberOfPayments - 1))
           in js_div (Math_round (js_mul monthlyPayment (Finite 100))) (Finite 100))"

definition calculateTotalInterest :: "real \<Rightarrow> real \<Rightarrow> nat \<Rightarrow> jsnum" where
  "calculateTotalInterest loanAmount interestRate loanTermYears =
     (let monthlyPayment = calculateMonthlyPayment loanAmount interestRate loanTermYears;
          totalPayments = js_mul (js_mul monthlyPayment (Finite (real loanTermYears))) (Finite 12)
      in js_div (Math_round (js_mul (js_sub totalPayments (Finite loanAmount)) (Finite 100)))
                (Finite 100))"

section \<open>Stored records and the database\<close>

text \<open>
  The column and enum declarations live in \<open>db/schema.ts\<close> and \<open>schema.ts\<close>, which the
  handlers import. The enums below list the values the data model names; the strings
  \<open>'15'\<close>, \<open>'20'\<close>, \<open>'25'\<close>, \<open>'30'\<close> of the loan term are the constructors of
  \<open>LoanTerm\<close>, and \<open>parseInt\<close> reads them. A numeric column holds a decimal string,
  modelled as the real number it denotes; \<open>toString\<close> and \<open>parseFloat\<close> at the column
  boundary are then the identity, and the scale a column rounds to is not modelled.
  The id columns are of the database's 32-bit \<open>integer\<close> type: a stored id is a
  \<open>32 word\<close>, read as the signed number \<open>sint\<close> of it, where the id of an update input
  is any integer the caller sends.
\<close>

datatype LoanType = conventional | fha | va | usda | jumbo

datatype LoanTerm = Term15 | Term20 | Term25 | Term30

fun parseInt :: "LoanTerm \<Rightarrow> nat" where
  "parseInt Term15 = 15"
| "parseInt Term20 = 20"
| "parseInt Term25 = 25"
| "parseInt Term30 = 30"

type_synonym timestamp = int

type_synonym int4 = "32 word"

definition in_int4 :: "int \<Rightarrow> bool" where
  "in_int4 i \<longleftrightarrow> - 2147483648 \<le> i \<and> i \<le> 2147483647"

record lender =
  l_id :: int4
  l_name :: string
  l_logo_url :: "string option"
  l_website_url :: "string option"
  l_phone :: "string option"
  l_email :: "string option"
  l_is_active :: bool
  l_created_at :: timestamp
  l_updated_at :: timestamp

record mortgage_rate =
  r_id :: int4
  r_lender_id :: int4
  r_loan_type :: LoanType
  r_loan_term :: LoanTerm
  r_interest_rate :: real
  r_apr :: real
  r_points :: real
  r_min_credit_score :: int
  r_max_loan_amount :: real
  r_min_down_payment_percent :: real
  r_closing_costs :: "real option"
  r_is_active :: bool
  r_created_at :: timestamp
  r_updated_at :: timestamp

text \<open>The two tables, each a list of rows in storage order.\<close>

record database =
  lendersTable :: "lender list"
  mortgageRatesTable :: "mortgage_rate list"

text \<open>
  A \<open>select\<close> reads the tables and leaves them as they are; an \<open>update\<close> replaces them.
\<close>

definition execute_select :: "(database \<Rightarrow> 'a) \<Rightarrow> database \<Rightarrow> 'a \<times> database" where
  "execute_select q db = (q db, db)"

definition execute_update :: "(database \<Rightarrow> 'a \<times> database) \<Rightarrow> database \<Rightarrow> 'a \<times> database" where
  "execute_update u db = u db"

section \<open>getMortgageQuotes (get\_mortgage\_quotes.ts)\<close>

record CreateMortgageQuoteRequestInput =
  loan_amount :: real
  property_value :: real
  down_payment :: real
  credit_score :: int
  loan_type :: LoanType
  loan_term :: LoanTerm
  property_type :: string
  occupancy_type :: string
  zip_code :: string
  debt_to_income_ratio :: "real option"

record MortgageQuote =
  q_rate_id :: int4
  q_lender_id :: int4
  q_lender_name :: string
  q_lender_logo_url :: "string option"
  q_loan_type :: LoanType
  q_loan_term :: LoanTerm
  q_interest_rate :: real
  q_apr :: real
  q_points :: real
  q_monthly_payment :: jsnum
  q_total_interest :: jsnum
  q_closing_costs :: "real option"
  q_down_payment_percent :: jsnum
  q_loan_to_value_ratio :: jsnum

text \<open>
  \<open>lte(column, x.toString())\<close> on a numeric column, where \<open>x\<close> is a JavaScript number.
  The database reads the strings \<open>'Infinity'\<close> and \<open>'NaN'\<close> as numeric values:
  \<open>Infinity\<close> is above every finite value, and \<open>NaN\<close> is ordered above every other
  value.
\<close>

fun numeric_lte :: "real \<Rightarrow> jsnum \<Rightarrow> bool" where
  "numeric_lte c (Finite x) = (c \<le> x)"
| "numeric_lte c PosInfinity = True"
| "numeric_lte c NegInfinity = False"
| "numeric_lte c NaN = True"

text \<open>\<open>.from(mortgageRatesTable).innerJoin(lendersTable, eq(lender_id, id))\<close>\<close>

definition innerJoin :: "mortgage_rate list \<Rightarrow> lender list \<Rightarrow> (mortgage_rate \<times> lender) list" where
  "innerJoin rates lenders =
     concat (map (\<lambda>r. map (Pair r) (filter (\<lambda>l. r_lender_id r = l_id l) lenders)) rates)"

text \<open>The \<open>where(and(...))\<close> clause, one conjunct per line of the source.\<close>

definition quote_criteria ::
  "CreateMortgageQuoteRequestInput \<Rightarrow> jsnum \<Rightarrow> mortgage_rate \<times> lender \<Rightarrow> bool" where
  "quote_criteria input downPaymentPercent row =
     (case row of (r, l) \<Rightarrow>
        r_loan_type r = loan_type input \<and>
        r_loan_term r = loan_term input \<and>
        r_min_credit_score r \<le> credit_score input \<and>
        r_max_loan_amount r \<ge> loan_amount input \<and>
        numeric_lte (r_min_down_payment_percent r) downPaymentPercent \<and>
        r_is_active r = True \<and>
        l_is_active l = True)"

text \<open>
  The query of \<open>getMortgageQuotes\<close>. A row of the result is the joined pair of a rate
  and its lender, from which the selected columns are read. \<open>orderBy(asc(apr))\<close> is an
  insertion sort on the \<open>apr\<close> column; it keeps rows of equal \<open>apr\<close> in table order,
  which is one of the orders the database may return them in.
\<close>

definition quotes_query ::
  "CreateMortgageQuoteRequestInput \<Rightarrow> jsnum \<Rightarrow> database \<Rightarrow> (mortgage_rate \<times> lender) list" where
  "quotes_query input downPaymentPercent db =
     sort_key (\<lambda>row. r_apr (fst row))
       (filter (quote_criteria input downPaymentPercent)
          (innerJoin (mortgageRatesTable db) (lendersTable db)))"

definition getMortgageQuotes ::
  "CreateMortgageQuoteRequestInput \<Rightarrow> database \<Rightarrow> MortgageQuote list \<times> database" where
  "getMortgageQuotes input db =
     (let downPaymentPercent =
            js_mul (js_div (Finite (down_payment input)) (Finite (property_value input))) (Finite 100);
          loanToValueRatio =
            js_mul (js_div (Finite (loan_amount input)) (Finite (property_value input))) (Finite 100);
          (results, db') = execute_select (quotes_query input downPaymentPercent) db
      in (map (\<lambda>result.
                 let interestRate = r_interest_rate (fst result);
                     apr = r_apr (fst result);
                     points = r_points (fst result);
                     closingCosts = r_closing_costs (fst result);
                     monthlyPayment =
                       calculateMonthlyPayment (loan_amount input) interestRate
                         (parseInt (loan_term input));
                     totalInterest =
                       calculateTotalInterest (loan_amount input) interestRate
                         (parseInt (loan_term input))
                 in \<lparr> q_rate_id = r_id (fst result),
                      q_lender_id = r_lender_id (fst result),
                      q_lender_name = l_name (snd result),
                      q_lender_logo_url = l_logo_url (snd result),
                      q_loan_type = r_loan_type (fst result),
                      q_loan_term = r_loan_term (fst result),
                      q_interest_rate = interestRate,
                      q_apr = apr,
                      q_points = points,
                      q_monthly_payment = monthlyPayment,
                      q_total_interest = totalInterest,
                      q_closing_costs = closingCosts,
                      q_down_payment_percent =
                        js_div (Math_round (js_mul downPaymentPercent (Finite 100))) (Finite 100),
                      q_loan_to_value_ratio =
                        js_div (Math_round (js_mul loanToValueRatio (Finite 100))) (Finite 100) \<rparr>)
              results,
          db'))"

subsection \<open>The order of rows of equal APR\<close>



section \<open>Error messages\<close>

text \<open>
  A thrown \<open>new Error(message)\<close> is the value \<open>Error message\<close>; reading a property of
  \<open>undefined\<close> throws a \<open>TypeError\<close>; a query that the database rejects makes
  \<open>execute()\<close> throw a \<open>DrizzleQueryError\<close>, whose message is the failed query with its
  parameters. The template literal \<open>${input.id}\<close> prints an integer in decimal.
\<close>

datatype error = Error string | TypeError | DrizzleQueryError

definition digit_char :: "nat \<Rightarrow> char" where
  "digit_char n = ''0123456789'' ! (n mod 10)"

function show_nat :: "nat \<Rightarrow> string" where
  "show_nat n = (if n < 10 then [digit_char n] else show_nat (n div 10) @ [digit_char n])"
  by pat_completeness auto
termination
  by (relation "measure (\<lambda>n. n)") auto

declare show_nat.simps [simp del]

definition show_int :: "int \<Rightarrow> string" where
  "show_int i = (if i < 0 then CHR ''-'' # show_nat (nat (- i)) else show_nat (nat i))"



section \<open>Rows of a given id\<close>

text \<open>
  \<open>.where(eq(table.id, i))\<close> for a JavaScript number \<open>i\<close>: the database reads the
  parameter as a value of the id column's type and rejects the query when \<open>i\<close> is outside
  the range of that type; otherwise the rows whose id is \<open>i\<close> match.
\<close>

definition where_id_eq :: "('row \<Rightarrow> int4) \<Rightarrow> int \<Rightarrow> 'row list \<Rightarrow> error + 'row list" where
  "where_id_eq id_column i rows =
     (if in_int4 i then Inr (filter (\<lambda>row. sint (id_column row) = i) rows)
      else Inl DrizzleQueryError)"

section \<open>updateLender (update\_lender.ts)\<close>

text \<open>
  In an update input a field that is \<open>undefined\<close> is \<open>None\<close>; a nullable field that
  is given as \<open>null\<close> is \<open>Some None\<close>.
\<close>

record UpdateLenderInput =
  ul_id :: int
  ul_name :: "string option"
  ul_logo_url :: "string option option"
  ul_website_url :: "string option option"
  ul_phone :: "string option option"
  ul_email :: "string option option"
  ul_is_active :: "bool option"

text \<open>
  The object \<open>updateData\<close>: a partial row, where a key that was never assigned is
  \<open>None\<close>.
\<close>

record lender_updateData =
  lu_name :: "string option"
  lu_logo_url :: "string option option"
  lu_website_url :: "string option option"
  lu_phone :: "string option option"
  lu_email :: "string option option"
  lu_is_active :: "bool option"
  lu_updated_at :: "timestamp option"

text \<open>The value of a column after \<open>set\<close>: the key's value if the key is there.\<close>

fun assigned :: "'a option \<Rightarrow> 'a \<Rightarrow> 'a" where
  "assigned None old = old"
| "assigned (Some v) old = v"

definition set_lender :: "lender_updateData \<Rightarrow> lender \<Rightarrow> lender" where
  "set_lender u l =
     l\<lparr> l_name := assigned (lu_name u) (l_name l),
        l_logo_url := assigned (lu_logo_url u) (l_logo_url l),
        l_website_url := assigned (lu_website_url u) (l_website_url l),
        l_phone := assigned (lu_phone u) (l_phone l),
        l_email := assigned (lu_email u) (l_email l),
        l_is_active := assigned (lu_is_active u) (l_is_active l),
        l_updated_at := assigned (lu_updated_at u) (l_updated_at l) \<rparr>"

text \<open>
  \<open>db.update(lendersTable).set(updateData).where(eq(lendersTable.id, id)).returning()\<close>:
  the rows with that id are replaced, and returned as they are after the update; a rejected
  query changes nothing.
\<close>

definition update_lenders ::
  "lender_updateData \<Rightarrow> int \<Rightarrow> database \<Rightarrow> (error + lender list) \<times> database" where
  "update_lenders u i db =
     (case where_id_eq l_id i (lendersTable db) of
        Inl e \<Rightarrow> (Inl e, db)
      | Inr rows \<Rightarrow>
          (Inr (map (set_lender u) rows),
           db\<lparr> lendersTable :=
                 map (\<lambda>l. if sint (l_id l) = i then set_lender u l else l) (lendersTable db) \<rparr>))"

text \<open>
  "Build update object with only provided fields": \<open>updated_at\<close> is always a key, and
  \<open>if (input.f !== undefined) updateData.f = input.f\<close> makes \<open>f\<close> a key exactly when
  the input has it.
\<close>

definition lender_updateData_of :: "UpdateLenderInput \<Rightarrow> timestamp \<Rightarrow> lender_updateData" where
  "lender_updateData_of input now =
     \<lparr> lu_name = ul_name input,
       lu_logo_url = ul_logo_url input,
       lu_website_url = ul_website_url input,
       lu_phone = ul_phone input,
       lu_email = ul_email input,
       lu_is_active = ul_is_active input,
       lu_updated_at = Some now \<rparr>"

text \<open>
  \<open>updateLender(input)\<close>, with the value of \<open>new Date()\<close> as the argument \<open>now\<close>.
  An error thrown by a query leaves the handler through its \<open>catch\<close>, which throws it
  again. \<open>result[0]\<close> of an empty result is \<open>undefined\<close>, here \<open>None\<close>.
\<close>

definition updateLender ::
  "UpdateLenderInput \<Rightarrow> timestamp \<Rightarrow> database \<Rightarrow> (error + lender option) \<times> database" where
  "updateLender input now db =
     (let (selected, db1) =
            execute_select (\<lambda>d. where_id_eq l_id (ul_id input) (lendersTable d)) db
      in case selected of
           Inl e \<Rightarrow> (Inl e, db1)
         | Inr existingLender \<Rightarrow>
             if length existingLender = 0 then
               (Inl (Error (''Lender with id '' @ show_int (ul_id input) @ '' not found'')), db1)
             else
               let updateData = lender_updateData_of input now;
                   (updated, db2) = execute_update (update_lenders updateData (ul_id input)) db1
               in case updated of
                    Inl e \<Rightarrow> (Inl e, db2)
                  | Inr result \<Rightarrow> (Inr (case result of [] \<Rightarrow> None | x # _ \<Rightarrow> Some x), db2))"

section \<open>updateMortgageRate (update\_mortgage\_rate.ts)\<close>

record UpdateMortgageRateInput =
  ur_id :: int
  ur_lender_id :: "int option"
  ur_loan_type :: "LoanType option"
  ur_loan_term :: "LoanTerm option"
  ur_interest_rate :: "real option"
  ur_apr :: "real option"
  ur_points :: "real option"
  ur_min_credit_score :: "int option"
  ur_max_loan_amount :: "real option"
  ur_min_down_payment_percent :: "real option"
  ur_closing_costs :: "real option option"
  ur_is_active :: "bool option"

record rate_updateData =
  ru_lender_id :: "int option"
  ru_loan_type :: "LoanType option"
  ru_loan_term :: "LoanTerm option"
  ru_interest_rate :: "real option"
  ru_apr :: "real option"
  ru_points :: "real option"
  ru_min_credit_score :: "int option"
  ru_max_loan_amount :: "real option"
  ru_min_down_payment_percent :: "real option"
  ru_closing_costs :: "real option option"
  ru_is_active :: "bool option"
  ru_updated_at :: "timestamp option"

text \<open>
  The \<open>lender_id\<close> of \<open>updateData\<close> is a JavaScript number, stored in an id column.
\<close>

definition set_rate :: "rate_updateData \<Rightarrow> mortgage_rate \<Rightarrow> mortgage_rate" where
  "set_rate u r =
     r\<lparr> r_lender_id := assigned (map_option word_of_int (ru_lender_id u)) (r_lender_id r),
        r_loan_type := assigned (ru_loan_type u) (r_loan_type r),
        r_loan_term := assigned (ru_loan_term u) (r_loan_term r),
        r_interest_rate := assigned (ru_interest_rate u) (r_interest_rate r),
        r_apr := assigned (ru_apr u) (r_apr r),
        r_points := assigned (ru_points u) (r_points r),
        r_min_credit_score := assigned (ru_min_credit_score u) (r_min_credit_score r),
        r_max_loan_amount := assigned (ru_max_loan_amount u) (r_max_loan_amount r),
        r_min_down_payment_percent :=
          assigned (ru_min_down_payment_percent u) (r_min_down_payment_percent r),
        r_closing_costs := assigned (ru_closing_costs u) (r_closing_costs r),
        r_is_active := assigned (ru_is_active u) (r_is_active r),
        r_updated_at := assigned (ru_updated_at u) (r_updated_at r) \<rparr>"

text \<open>
  The update of the rates of a given id; the database also rejects a \<open>lender_id\<close> outside
  the range of the id column.
\<close>

definition update_rates ::
  "rate_updateData \<Rightarrow> int \<Rightarrow> database \<Rightarrow> (error + mortgage_rate list) \<times> database" where
  "update_rates u i db =
     (if (case ru_lender_id u of None \<Rightarrow> True | Some lender_id \<Rightarrow> in_int4 lender_id) then
        (case where_id_eq r_id i (mortgageRatesTable db) of
           Inl e \<Rightarrow> (Inl e, db)
         | Inr rows \<Rightarrow>
             (Inr (map (set_rate u) rows),
              db\<lparr> mortgageRatesTable :=
                    map (\<lambda>r. if sint (r_id r) = i then set_rate u r else r)
                      (mortgageRatesTable db) \<rparr>))
      else (Inl DrizzleQueryError, db))"

definition rate_updateData_of :: "UpdateMortgageRateInput \<Rightarrow> timestamp \<Rightarrow> rate_updateData" where
  "rate_updateData_of input now =
     \<lparr> ru_lender_id = ur_lender_id input,
       ru_loan_type = ur_loan_type input,
       ru_loan_term = ur_loan_term input,
       ru_interest_rate = ur_interest_rate input,
       ru_apr = ur_apr input,
       ru_points = ur_points input,
       ru_min_credit_score = ur_min_credit_score input,
       ru_max_loan_amount = ur_max_loan_amount input,
       ru_min_down_payment_percent = ur_min_down_payment_percent input,
       ru_closing_costs = ur_closing_costs input,
       ru_is_active = ur_is_active input,
       ru_updated_at = Some now \<rparr>"

text \<open>
  \<open>updateMortgageRate(input)\<close>. The check of \<open>input.lender_id\<close> either throws
  (\<open>Some\<close> of the error) or lets the handler go on. The returned row is the stored row
  with its numeric columns parsed, which is the stored row itself here.
\<close>

definition updateMortgageRate ::
  "UpdateMortgageRateInput \<Rightarrow> timestamp \<Rightarrow> database \<Rightarrow> (error + mortgage_rate) \<times> database" where
  "updateMortgageRate input now db =
     (let (selected, db1) =
            execute_select (\<lambda>d. where_id_eq r_id (ur_id input) (mortgageRatesTable d)) db
      in case selected of
           Inl e \<Rightarrow> (Inl e, db1)
         | Inr existingRate \<Rightarrow>
             if length existingRate = 0 then
               (Inl (Error (''Mortgage rate with ID '' @ show_int (ur_id input) @ '' not found'')),
                db1)
             else
               let (thrown, db2) =
                     (case ur_lender_id input of
                        None \<Rightarrow> (None, db1)
                      | Some lender_id \<Rightarrow>
                          let (selected_lender, db') =
                                execute_select (\<lambda>d. where_id_eq l_id lender_id (lendersTable d)) db1
                          in case selected_lender of
                               Inl e \<Rightarrow> (Some e, db')
                             | Inr lender \<Rightarrow>
                                 if length lender = 0 then
                                   (Some (Error (''Lender with ID '' @ show_int lender_id
                                                   @ '' not found'')), db')
                                 else (None, db'))
               in case thrown of
                    Some e \<Rightarrow> (Inl e, db2)
                  | None \<Rightarrow>
                      let updateData = rate_updateData_of input now;
                          (updated, db3) =
                            execute_update (update_rates updateData (ur_id input)) db2
                      in case updated of
                           Inl e \<Rightarrow> (Inl e, db3)
                         | Inr [] \<Rightarrow> (Inl TypeError, db3)
                         | Inr (updatedRate # _) \<Rightarrow> (Inr updatedRate, db3))"

section \<open>Notions of the specification\<close>

text \<open>
  The rounding rule of the specification: round half away from zero, to two decimals.
\<close>

definition round_half_away_2dp :: "real \<Rightarrow> real" where
  "round_half_away_2dp x =
     (if 0 \<le> x then of_int \<lfloor>x * 100 + 1 / 2\<rfloor> / 100
      else - (of_int \<lfloor>- x * 100 + 1 / 2\<rfloor> / 100))"


text \<open>
  What an update may do to a column: a field the input gives is stored, a field the input
  omits keeps its stored value.
\<close>

definition updated_or_kept :: "'a option \<Rightarrow> 'a \<Rightarrow> 'a \<Rightarrow> bool" where
  "updated_or_kept given old new \<longleftrightarrow> (case given of None \<Rightarrow> new = old | Some v \<Rightarrow> new = v)"

text \<open>
  The frame of an update of a lender row: \<open>id\<close> and \<open>created_at\<close> stay, \<open>updated_at\<close>
  is the new timestamp, and every other column is updated or kept.
\<close>

definition lender_update_frame :: "UpdateLenderInput \<Rightarrow> timestamp \<Rightarrow> lender \<Rightarrow> lender \<Rightarrow> bool" where
  "lender_update_frame input now old new \<longleftrightarrow>
     l_id new = l_id old \<and>
     l_created_at new = l_created_at old \<and>
     l_updated_at new = now \<and>
     updated_or_kept (ul_name input) (l_name old) (l_name new) \<and>
     updated_or_kept (ul_logo_url input) (l_logo_url old) (l_logo_url new) \<and>
     updated_or_kept (ul_website_url input) (l_website_url old) (l_website_url new) \<and>
     updated_or_kept (ul_phone input) (l_phone old) (l_phone new) \<and>
     updated_or_kept (ul_email input) (l_email old) (l_email new) \<and>
     updated_or_kept (ul_is_active input) (l_is_active old) (l_is_active new)"

text \<open>The same frame for a mortgage rate row.\<close>

definition rate_update_frame ::
  "UpdateMortgageRateInput \<Rightarrow> timestamp \<Rightarrow> mortgage_rate \<Rightarrow> mortgage_rate \<Rightarrow> bool" where
  "rate_update_frame input now old new \<longleftrightarrow>
     r_id new = r_id old \<and>
     r_created_at new = r_created_at old \<and>
     r_updated_at new = now \<and>
     updated_or_kept (ur_lender_id input) (sint (r_lender_id old)) (sint (r_lender_id new)) \<and>
     updated_or_kept (ur_loan_type input) (r_loan_type old) (r_loan_type new) \<and>
     updated_or_kept (ur_loan_term input) (r_loan_term old) (r_loan_term new) \<and>
     updated_or_kept (ur_interest_rate input) (r_interest_rate old) (r_interest_rate new) \<and>
     updated_or_kept (ur_apr input) (r_apr old) (r_apr new) \<and>
     updated_or_kept (ur_points input) (r_points old) (r_points new) \<and>
     updated_or_kept (ur_min_credit_score input) (r_min_credit_score old) (r_min_credit_score new) \<and>
     updated_or_kept (ur_max_loan_amount input) (r_max_loan_amount old) (r_max_loan_amount new) \<and>
     updated_or_kept (ur_min_down_payment_percent input) (r_min_down_payment_percent old) (r_min_down_payment_percent new) \<and>
     updated_or_kept (ur_closing_costs input) (r_closing_costs old) (r_closing_costs new) \<and>
     updated_or_kept (ur_is_active input) (r_is_active old) (r_is_active new)"

section \<open>Scenarios\<close>

text \<open>
  The request, lender and rate of the test "should calculate monthly payment correctly" of
  \<open>getMortgageQuotes\<close>, which is the first concrete scenario of the specification, and the
  quote the specification expects for it.
\<close>

definition scenario_input :: CreateMortgageQuoteRequestInput where
  "scenario_input =
     \<lparr> loan_amount = 400000, property_value = 500000, down_payment = 100000,
       credit_score = 750, loan_type = conventional, loan_term = Term30,
       property_type = ''single_family'', occupancy_type = ''primary'',
       zip_code = ''90210'', debt_to_income_ratio = Some 35.5 \<rparr>"

definition scenario_lender :: lender where
  "scenario_lender =
     \<lparr> l_id = 1, l_name = ''Test Bank'', l_logo_url = None, l_website_url = None,
       l_phone = None, l_email = None, l_is_active = True,
       l_created_at = 0, l_updated_at = 0 \<rparr>"

definition scenario_rate :: mortgage_rate where
  "scenario_rate =
     \<lparr> r_id = 1, r_lender_id = 1, r_loan_type = conventional, r_loan_term = Term30,
       r_interest_rate = 6, r_apr = 6.2, r_points = 0, r_min_credit_score = 700,
       r_max_loan_amount = 500000, r_min_down_payment_percent = 10,
       r_closing_costs = None, r_is_active = True, r_created_at = 0, r_updated_at = 0 \<rparr>"

definition scenario_db :: database where
  "scenario_db = \<lparr> lendersTable = [scenario_lender], mortgageRatesTable = [scenario_rate] \<rparr>"


text \<open>
  The two rates of "should sort results by APR in ascending order", stored with the higher
  APR first.
\<close>

definition high_apr_rate :: mortgage_rate where
  "high_apr_rate =
     \<lparr> r_id = 1, r_lender_id = 1, r_loan_type = conventional, r_loan_term = Term30,
       r_interest_rate = 7, r_apr = 7.5, r_points = 0, r_min_credit_score = 700,
       r_max_loan_amount = 500000, r_min_down_payment_percent = 10,
       r_closing_costs = None, r_is_active = True, r_created_at = 0, r_updated_at = 0 \<rparr>"

definition low_apr_rate :: mortgage_rate where
  "low_apr_rate =
     \<lparr> r_id = 2, r_lender_id = 1, r_loan_type = conventional, r_loan_term = Term30,
       r_interest_rate = 6.5, r_apr = 6.75, r_points = 1, r_min_credit_score = 700,
       r_max_loan_amount = 500000, r_min_down_payment_percent = 10,
       r_closing_costs = None, r_is_active = True, r_created_at = 0, r_updated_at = 0 \<rparr>"

definition two_rates_db :: database where
  "two_rates_db =
     \<lparr> lendersTable = [scenario_lender], mortgageRatesTable = [high_apr_rate, low_apr_rate] \<rparr>"



text \<open>The rate of "should handle zero interest rate edge case".\<close>

definition zero_rate :: mortgage_rate where
  "zero_rate = scenario_rate\<lparr> r_interest_rate := 0, r_apr := 0 \<rparr>"

definition zero_rate_db :: database where
  "zero_rate_db = \<lparr> lendersTable = [scenario_lender], mortgageRatesTable = [zero_rate] \<rparr>"


text \<open>
  Update inputs: one that names two fields of lender 1 ("should update only provided
  fields"), one for an id that is not stored ("should throw error when lender does not
  exist"), and the same for rates.
\<close>

definition partial_lender_update :: UpdateLenderInput where
  "partial_lender_update =
     \<lparr> ul_id = 1, ul_name = Some ''Partially Updated Lender'', ul_logo_url = None,
       ul_website_url = None, ul_phone = None,
       ul_email = Some (Some ''newemail@example.com''), ul_is_active = None \<rparr>"


definition partial_rate_update :: UpdateMortgageRateInput where
  "partial_rate_update =
     \<lparr> ur_id = 1, ur_lender_id = Some 1, ur_loan_type = None, ur_loan_term = None,
       ur_interest_rate = Some 5.5, ur_apr = Some 5.75, ur_points = None,
       ur_min_credit_score = None, ur_max_loan_amount = None,
       ur_min_down_payment_percent = None, ur_closing_costs = Some None,
       ur_is_active = None \<rparr>"




section \<open>Rounding and amortization\<close>

lemma round_2dp_Finite:
  "js_div (Math_round (js_mul (Finite x) (Finite 100))) (Finite 100)
     = Finite (of_int \<lfloor>x * 100 + 1 / 2\<rfloor> / 100)"
  by simp





lemma calculateTotalInterest_zero_rate:
  "0 < T \<Longrightarrow> calculateTotalInterest P 0 T = Finite 0"
  by (simp add: calculateTotalInterest_def calculateMonthlyPayment_def)




section \<open>The quotes of a request\<close>

lemma getMortgageQuotes_snd: "snd (getMortgageQuotes input db) = db"
  by (simp add: getMortgageQuotes_def execute_select_def Let_def)







lemma apr_of_quotes:
  "map q_apr (fst (getMortgageQuotes input db)) =
     map (\<lambda>row. r_apr (fst row))
       (quotes_query input
          (js_mul (js_div (Finite (down_payment input)) (Finite (property_value input))) (Finite 100)) db)"
  by (simp add: getMortgageQuotes_def execute_select_def Let_def comp_def)

lemma sorted_quotes_query: "sorted (map (\<lambda>row. r_apr (fst row)) (quotes_query input dpp db))"
  unfolding quotes_query_def by (rule sorted_sort_key)


section \<open>Ranking by APR\<close>

lemma scenario_ratio:
  "js_mul (js_div (Finite (down_payment scenario_input))
     (Finite (property_value scenario_input))) (Finite 100) = Finite 20"
  by (simp add: scenario_input_def)

lemma two_rates_query:
  "quotes_query scenario_input (Finite 20) two_rates_db =
     [(low_apr_rate, scenario_lender), (high_apr_rate, scenario_lender)]"
  by (simp add: quotes_query_def innerJoin_def quote_criteria_def two_rates_db_def
      scenario_input_def high_apr_rate_def low_apr_rate_def scenario_lender_def)

text \<open>
  Claim C2. The sequence returned by \<open>getMortgageQuotes\<close> is sorted non-decreasing by
  \<open>apr\<close>; with the two eligible records of APR 7.5 and 6.75, stored in that order, the
  returned order is the quote with APR 6.75 followed by the quote with APR 7.5.
\<close>

theorem quotes_sorted_by_apr:
  "sorted (map q_apr (fst (getMortgageQuotes input db))) \<and>
   map q_apr (fst (getMortgageQuotes scenario_input two_rates_db)) = [6.75, 7.5] \<and>
   map q_rate_id (fst (getMortgageQuotes scenario_input two_rates_db)) = [2, 1]"
proof (intro conjI)
  show "sorted (map q_apr (fst (getMortgageQuotes input db)))"
    unfolding apr_of_quotes by (rule sorted_quotes_query)
  show "map q_apr (fst (getMortgageQuotes scenario_input two_rates_db)) = [6.75, 7.5]"
    unfolding apr_of_quotes scenario_ratio two_rates_query
    by (simp add: low_apr_rate_def high_apr_rate_def)
  show "map q_rate_id (fst (getMortgageQuotes scenario_input two_rates_db)) = [2, 1]"
    unfolding getMortgageQuotes_def Let_def scenario_ratio execute_select_def two_rates_query
    by (simp add: low_apr_rate_def high_apr_rate_def)
qed

section \<open>Total interest\<close>






section \<open>The first scenario and a rate of zero\<close>



text \<open>
  Claim C4, evaluated at a loan of 400000 over 30 years at an interest rate of zero: the
  monthly payment is \<open>400000 / 360\<close> as it is, \<open>10000 / 9\<close>, where the rounded value is
  1111.11; the total interest is 0.
\<close>

theorem zero_rate_payment_not_rounded:
  "calculateMonthlyPayment 400000 0 30 = Finite (10000 / 9) \<and>
   round_half_away_2dp (400000 / (30 * 12)) = 1111.11 \<and>
   calculateTotalInterest 400000 0 30 = Finite 0 \<and>
   map q_monthly_payment (fst (getMortgageQuotes scenario_input zero_rate_db)) = [Finite (10000 / 9)] \<and>
   map q_total_interest (fst (getMortgageQuotes scenario_input zero_rate_db)) = [Finite 0]"
proof -
  have q: "quotes_query scenario_input (Finite 20) zero_rate_db = [(zero_rate, scenario_lender)]"
    by (simp add: quotes_query_def innerJoin_def quote_criteria_def zero_rate_db_def
        scenario_input_def zero_rate_def scenario_rate_def scenario_lender_def)
  have a: "calculateMonthlyPayment 400000 0 30 = Finite (10000 / 9)"
    by (simp add: calculateMonthlyPayment_def)
  have b: "round_half_away_2dp (400000 / (30 * 12)) = 1111.11"
    by (simp add: round_half_away_2dp_def)
  have c: "calculateTotalInterest 400000 0 30 = Finite 0"
    by (simp add: calculateTotalInterest_zero_rate)
  have d: "map q_monthly_payment (fst (getMortgageQuotes scenario_input zero_rate_db)) =
      [calculateMonthlyPayment 400000 0 30]"
    unfolding getMortgageQuotes_def Let_def scenario_ratio execute_select_def q
    by (simp add: scenario_input_def zero_rate_def scenario_rate_def)
  have e: "map q_total_interest (fst (getMortgageQuotes scenario_input zero_rate_db)) =
      [calculateTotalInterest 400000 0 30]"
    unfolding getMortgageQuotes_def Let_def scenario_ratio execute_select_def q
    by (simp add: scenario_input_def zero_rate_def scenario_rate_def)
  from a b c d e show ?thesis by simp
qed

section \<open>A property value of zero\<close>








section \<open>The first scenario as an instance\<close>



section \<open>Repeated invocations\<close>














section \<open>Updates of an unknown record\<close>




lemma in_int4_sint: "in_int4 (sint (w :: int4))"
  using sint_ge [of w] sint_lt [of w] by (simp add: in_int4_def)

lemma sint_word_of_int: "in_int4 i \<Longrightarrow> sint (word_of_int i :: int4) = i"
  by (simp add: in_int4_def sint_sbintrunc' signed_take_bit_int_eq_self)

lemma stored_id_in_int4: "i \<in> (\<lambda>row. sint (id_column row :: int4)) ` set rows \<Longrightarrow> in_int4 i"
  by (auto simp: in_int4_sint)

lemma where_id_eq_rejected:
  "\<not> in_int4 i \<Longrightarrow> where_id_eq id_column i rows = Inl DrizzleQueryError"
  by (simp add: where_id_eq_def)

lemma where_id_eq_empty:
  assumes "in_int4 i" and "i \<notin> (\<lambda>row. sint (id_column row)) ` set rows"
  shows "where_id_eq id_column i rows = Inr []"
proof -
  from assms(2) have "filter (\<lambda>row. sint (id_column row) = i) rows = []"
    by (induction rows) auto
  with assms(1) show ?thesis by (simp add: where_id_eq_def)
qed

lemma where_id_eq_found:
  assumes "i \<in> (\<lambda>row. sint (id_column row)) ` set rows"
  obtains x ys where "where_id_eq id_column i rows = Inr (x # ys)"
    and "x \<in> set rows" and "sint (id_column x) = i"
proof -
  from assms have "filter (\<lambda>row. sint (id_column row) = i) rows \<noteq> []"
    by (induction rows) auto
  then obtain x ys where e: "filter (\<lambda>row. sint (id_column row) = i) rows = x # ys"
    by (cases "filter (\<lambda>row. sint (id_column row) = i) rows") auto
  then have "x \<in> set (filter (\<lambda>row. sint (id_column row) = i) rows)" by simp
  then have x: "x \<in> set rows" "sint (id_column x) = i" by auto
  from assms have "in_int4 i" by (rule stored_id_in_int4)
  with e have "where_id_eq id_column i rows = Inr (x # ys)" by (simp add: where_id_eq_def)
  with x show thesis by (intro that)
qed







section \<open>Updates of an existing record\<close>

lemma assigned_case: "updated_or_kept g old (assigned g old)"
  by (cases g) (simp_all add: updated_or_kept_def)

lemma set_lender_frame:
  "lender_update_frame input now old (set_lender (lender_updateData_of input now) old)"
  by (simp add: lender_update_frame_def set_lender_def lender_updateData_of_def assigned_case)

lemma assigned_lender_id:
  assumes "\<forall>lid. g = Some lid \<longrightarrow> in_int4 lid"
  shows "updated_or_kept g (sint old) (sint (assigned (map_option word_of_int g) (old :: int4)))"
proof (cases g)
  case None
  then show ?thesis by (simp add: updated_or_kept_def)
next
  case (Some lid)
  with assms have "in_int4 lid" by simp
  with Some show ?thesis by (simp add: updated_or_kept_def sint_word_of_int)
qed

lemma set_rate_frame:
  assumes "\<forall>lid. ur_lender_id input = Some lid \<longrightarrow> in_int4 lid"
  shows "rate_update_frame input now old (set_rate (rate_updateData_of input now) old)"
  using assigned_lender_id [OF assms]
  by (simp add: rate_update_frame_def set_rate_def rate_updateData_of_def assigned_case)

lemma list_all2_map_same:
  "(\<And>x. x \<in> set xs \<Longrightarrow> P x (f x)) \<Longrightarrow> list_all2 P xs (map f xs)"
  by (induction xs) simp_all

lemma updateLender_found_db:
  assumes "ul_id input \<in> (\<lambda>l. sint (l_id l)) ` set (lendersTable db)"
  shows "snd (updateLender input now db) =
     db\<lparr> lendersTable :=
          map (\<lambda>l. if sint (l_id l) = ul_id input
                    then set_lender (lender_updateData_of input now) l
                    else l) (lendersTable db) \<rparr>"
proof -
  from assms obtain x ys
    where e: "where_id_eq l_id (ul_id input) (lendersTable db) = Inr (x # ys)"
    by (rule where_id_eq_found)
  show ?thesis
    by (simp add: updateLender_def execute_select_def execute_update_def update_lenders_def
        Let_def e)
qed

lemma updateLender_found_result:
  assumes "ul_id input \<in> (\<lambda>l. sint (l_id l)) ` set (lendersTable db)"
  shows "\<exists>old \<in> set (lendersTable db). sint (l_id old) = ul_id input \<and>
           fst (updateLender input now db) =
             Inr (Some (set_lender (lender_updateData_of input now) old))"
proof -
  from assms obtain x ys
    where e: "where_id_eq l_id (ul_id input) (lendersTable db) = Inr (x # ys)"
      and x: "x \<in> set (lendersTable db)" "sint (l_id x) = ul_id input"
    by (rule where_id_eq_found)
  have "fst (updateLender input now db) =
      Inr (Some (set_lender (lender_updateData_of input now) x))"
    by (simp add: updateLender_def execute_select_def execute_update_def update_lenders_def
        Let_def e)
  with x show ?thesis by blast
qed

lemma updateMortgageRate_lender_missing:
  assumes "ur_id input \<in> (\<lambda>r. sint (r_id r)) ` set (mortgageRatesTable db)"
    and "ur_lender_id input = Some lid"
    and "lid \<notin> (\<lambda>l. sint (l_id l)) ` set (lendersTable db)"
  shows "\<exists>e. updateMortgageRate input now db = (Inl e, db)"
proof -
  from assms(1) obtain x ys
    where e: "where_id_eq r_id (ur_id input) (mortgageRatesTable db) = Inr (x # ys)"
    by (rule where_id_eq_found)
  show ?thesis
  proof (cases "in_int4 lid")
    case True
    from where_id_eq_empty [OF True assms(3)] assms(2) show ?thesis
      by (simp add: updateMortgageRate_def execute_select_def Let_def e)
  next
    case False
    from where_id_eq_rejected [OF False, of l_id "lendersTable db"] assms(2) show ?thesis
      by (simp add: updateMortgageRate_def execute_select_def Let_def e)
  qed
qed

lemma updateMortgageRate_found:
  assumes "ur_id input \<in> (\<lambda>r. sint (r_id r)) ` set (mortgageRatesTable db)"
    and "\<forall>lid. ur_lender_id input = Some lid \<longrightarrow>
           lid \<in> (\<lambda>l. sint (l_id l)) ` set (lendersTable db)"
  shows "\<exists>old \<in> set (mortgageRatesTable db). sint (r_id old) = ur_id input \<and>
           updateMortgageRate input now db =
             (Inr (set_rate (rate_updateData_of input now) old),
              db\<lparr> mortgageRatesTable :=
                   map (\<lambda>r. if sint (r_id r) = ur_id input
                             then set_rate (rate_updateData_of input now) r
                             else r) (mortgageRatesTable db) \<rparr>)"
proof -
  from assms(1) obtain x ys
    where e: "where_id_eq r_id (ur_id input) (mortgageRatesTable db) = Inr (x # ys)"
      and x: "x \<in> set (mortgageRatesTable db)" "sint (r_id x) = ur_id input"
    by (rule where_id_eq_found)
  have "updateMortgageRate input now db =
             (Inr (set_rate (rate_updateData_of input now) x),
              db\<lparr> mortgageRatesTable :=
                   map (\<lambda>r. if sint (r_id r) = ur_id input
                             then set_rate (rate_updateData_of input now) r
                             else r) (mortgageRatesTable db) \<rparr>)"
  proof (cases "ur_lender_id input")
    case None
    then show ?thesis
      by (simp add: updateMortgageRate_def execute_select_def execute_update_def
          update_rates_def rate_updateData_of_def Let_def e)
  next
    case (Some lid)
    with assms(2) have m: "lid \<in> (\<lambda>l. sint (l_id l)) ` set (lendersTable db)" by simp
    then have r: "in_int4 lid" by (rule stored_id_in_int4)
    from m obtain y zs where "where_id_eq l_id lid (lendersTable db) = Inr (y # zs)"
      by (rule where_id_eq_found)
    with Some r show ?thesis
      by (simp add: updateMortgageRate_def execute_select_def execute_update_def
          update_rates_def rate_updateData_of_def Let_def e)
  qed
  with x show ?thesis by blast
qed

section \<open>The update scenarios\<close>




text \<open>
  Claim C10. For an input whose id is that of a stored lender, \<open>updateLender\<close> changes
  only the rows of that id, and in them only the fields the input gives and \<open>updated_at\<close>,
  which is set to the new timestamp; every field the input omits, \<open>created_at\<close> and the id
  keep their stored values, and the rates are untouched. The same holds for
  \<open>updateMortgageRate\<close> on a stored rate, unless the input names a lender that is not
  stored: then it throws and the database is unchanged.
\<close>

theorem update_keeps_omitted_fields:
  "(ul_id li \<in> (\<lambda>l. sint (l_id l)) ` set (lendersTable db) \<longrightarrow>
      mortgageRatesTable (snd (updateLender li now db)) = mortgageRatesTable db \<and>
      list_all2
        (\<lambda>old new. if sint (l_id old) = ul_id li then lender_update_frame li now old new
                    else new = old)
        (lendersTable db) (lendersTable (snd (updateLender li now db))) \<and>
      (\<exists>old \<in> set (lendersTable db). \<exists>new. sint (l_id old) = ul_id li \<and>
         fst (updateLender li now db) = Inr (Some new) \<and>
         lender_update_frame li now old new)) \<and>
   (ur_id ri \<in> (\<lambda>r. sint (r_id r)) ` set (mortgageRatesTable db) \<longrightarrow>
      lendersTable (snd (updateMortgageRate ri now db)) = lendersTable db \<and>
      (if \<exists>lid. ur_lender_id ri = Some lid \<and> lid \<notin> (\<lambda>l. sint (l_id l)) ` set (lendersTable db)
       then snd (updateMortgageRate ri now db) = db \<and>
            (\<exists>e. fst (updateMortgageRate ri now db) = Inl e)
       else list_all2
              (\<lambda>old new. if sint (r_id old) = ur_id ri then rate_update_frame ri now old new
                          else new = old)
              (mortgageRatesTable db) (mortgageRatesTable (snd (updateMortgageRate ri now db))) \<and>
            (\<exists>old \<in> set (mortgageRatesTable db). \<exists>new. sint (r_id old) = ur_id ri \<and>
               fst (updateMortgageRate ri now db) = Inr new \<and>
               rate_update_frame ri now old new)))"
proof (intro conjI impI)
  assume a: "ul_id li \<in> (\<lambda>l. sint (l_id l)) ` set (lendersTable db)"
  show "mortgageRatesTable (snd (updateLender li now db)) = mortgageRatesTable db"
    by (simp add: updateLender_found_db [OF a])
  show "list_all2
        (\<lambda>old new. if sint (l_id old) = ul_id li then lender_update_frame li now old new
                    else new = old)
        (lendersTable db) (lendersTable (snd (updateLender li now db)))"
    unfolding updateLender_found_db [OF a]
    by (simp add: list_all2_map_same set_lender_frame)
  show "\<exists>old \<in> set (lendersTable db). \<exists>new. sint (l_id old) = ul_id li \<and>
         fst (updateLender li now db) = Inr (Some new) \<and>
         lender_update_frame li now old new"
    using updateLender_found_result [OF a, of now] set_lender_frame by blast
next
  assume a: "ur_id ri \<in> (\<lambda>r. sint (r_id r)) ` set (mortgageRatesTable db)"
  let ?missing = "\<exists>lid. ur_lender_id ri = Some lid \<and>
                    lid \<notin> (\<lambda>l. sint (l_id l)) ` set (lendersTable db)"
  have found: "\<exists>old \<in> set (mortgageRatesTable db). sint (r_id old) = ur_id ri \<and>
           updateMortgageRate ri now db =
             (Inr (set_rate (rate_updateData_of ri now) old),
              db\<lparr> mortgageRatesTable :=
                   map (\<lambda>r. if sint (r_id r) = ur_id ri
                             then set_rate (rate_updateData_of ri now) r
                             else r) (mortgageRatesTable db) \<rparr>)"
    and frame: "rate_update_frame ri now old (set_rate (rate_updateData_of ri now) old)"
    if "\<not> ?missing" for old
  proof -
    from that have ok: "\<forall>lid. ur_lender_id ri = Some lid \<longrightarrow>
           lid \<in> (\<lambda>l. sint (l_id l)) ` set (lendersTable db)"
      by blast
    from updateMortgageRate_found [OF a ok]
    show "\<exists>old \<in> set (mortgageRatesTable db). sint (r_id old) = ur_id ri \<and>
           updateMortgageRate ri now db =
             (Inr (set_rate (rate_updateData_of ri now) old),
              db\<lparr> mortgageRatesTable :=
                   map (\<lambda>r. if sint (r_id r) = ur_id ri
                             then set_rate (rate_updateData_of ri now) r
                             else r) (mortgageRatesTable db) \<rparr>)" .
    have "\<forall>lid. ur_lender_id ri = Some lid \<longrightarrow> in_int4 lid"
    proof (intro allI impI)
      fix lid assume "ur_lender_id ri = Some lid"
      with ok have "lid \<in> (\<lambda>l. sint (l_id l)) ` set (lendersTable db)" by simp
      then show "in_int4 lid" by (rule stored_id_in_int4)
    qed
    then show "rate_update_frame ri now old (set_rate (rate_updateData_of ri now) old)"
      by (rule set_rate_frame)
  qed
  show "lendersTable (snd (updateMortgageRate ri now db)) = lendersTable db"
  proof (cases ?missing)
    case True
    then obtain lid where "ur_lender_id ri = Some lid"
      "lid \<notin> (\<lambda>l. sint (l_id l)) ` set (lendersTable db)" by blast
    from updateMortgageRate_lender_missing [OF a this, of now] show ?thesis by auto
  next
    case False
    from found [OF False] show ?thesis by auto
  qed
  show "if ?missing
       then snd (updateMortgageRate ri now db) = db \<and>
            (\<exists>e. fst (updateMortgageRate ri now db) = Inl e)
       else list_all2
              (\<lambda>old new. if sint (r_id old) = ur_id ri then rate_update_frame ri now old new
                          else new = old)
              (mortgageRatesTable db) (mortgageRatesTable (snd (updateMortgageRate ri now db))) \<and>
            (\<exists>old \<in> set (mortgageRatesTable db). \<exists>new. sint (r_id old) = ur_id ri \<and>
               fst (updateMortgageRate ri now db) = Inr new \<and>
               rate_update_frame ri now old new)"
  proof (cases ?missing)
    case True
    then obtain lid where "ur_lender_id ri = Some lid"
      "lid \<notin> (\<lambda>l. sint (l_id l)) ` set (lendersTable db)" by blast
    from updateMortgageRate_lender_missing [OF a this, of now]
    have "snd (updateMortgageRate ri now db) = db \<and>
            (\<exists>e. fst (updateMortgageRate ri now db) = Inl e)" by auto
    then show ?thesis unfolding if_P [OF True] .
  next
    case False
    from found [OF False] obtain old0 where
      o: "old0 \<in> set (mortgageRatesTable db)" "sint (r_id old0) = ur_id ri"
      and u: "updateMortgageRate ri now db =
             (Inr (set_rate (rate_updateData_of ri now) old0),
              db\<lparr> mortgageRatesTable :=
                   map (\<lambda>r. if sint (r_id r) = ur_id ri
                             then set_rate (rate_updateData_of ri now) r
                             else r) (mortgageRatesTable db) \<rparr>)"
      by blast
    have 1: "list_all2
              (\<lambda>old new. if sint (r_id old) = ur_id ri then rate_update_frame ri now old new
                          else new = old)
              (mortgageRatesTable db) (mortgageRatesTable (snd (updateMortgageRate ri now db)))"
      unfolding u by (simp add: list_all2_map_same frame [OF False])
    have 2: "\<exists>old \<in> set (mortgageRatesTable db). \<exists>new. sint (r_id old) = ur_id ri \<and>
               fst (updateMortgageRate ri now db) = Inr new \<and>
               rate_update_frame ri now old new"
      using o u frame [OF False, of old0] by auto
    from 1 2 show ?thesis unfolding if_not_P [OF False] by (rule conjI)
  qed
qed

text \<open>The partial updates of lender 1 and of rate 1 on the database of the first scenario.\<close>

theorem update_keeps_omitted_fields_witness:
  "ul_id partial_lender_update \<in> (\<lambda>l. sint (l_id l)) ` set (lendersTable scenario_db) \<and>
   lendersTable (snd (updateLender partial_lender_update 5 scenario_db)) =
     [scenario_lender\<lparr> l_name := ''Partially Updated Lender'',
        l_email := Some ''newemail@example.com'', l_updated_at := 5 \<rparr>] \<and>
   list_all2
     (\<lambda>old new. if sint (l_id old) = ul_id partial_lender_update
                 then lender_update_frame partial_lender_update 5 old new else new = old)
     (lendersTable scenario_db)
     (lendersTable (snd (updateLender partial_lender_update 5 scenario_db))) \<and>
   ur_id partial_rate_update \<in> (\<lambda>r. sint (r_id r)) ` set (mortgageRatesTable scenario_db) \<and>
   mortgageRatesTable (snd (updateMortgageRate partial_rate_update 5 scenario_db)) =
     [scenario_rate\<lparr> r_interest_rate := 5.5, r_apr := 5.75, r_closing_costs := None,
        r_updated_at := 5 \<rparr>] \<and>
   list_all2
     (\<lambda>old new. if sint (r_id old) = ur_id partial_rate_update
                 then rate_update_frame partial_rate_update 5 old new else new = old)
     (mortgageRatesTable scenario_db)
     (mortgageRatesTable (snd (updateMortgageRate partial_rate_update 5 scenario_db)))"
proof -
  have h1: "ul_id partial_lender_update \<in> (\<lambda>l. sint (l_id l)) ` set (lendersTable scenario_db)"
    by (simp add: partial_lender_update_def scenario_db_def scenario_lender_def)
  have h2: "ur_id partial_rate_update \<in> (\<lambda>r. sint (r_id r)) ` set (mortgageRatesTable scenario_db)"
    by (simp add: partial_rate_update_def scenario_db_def scenario_rate_def)
  have ok: "\<not> (\<exists>lid. ur_lender_id partial_rate_update = Some lid \<and>
                 lid \<notin> (\<lambda>l. sint (l_id l)) ` set (lendersTable scenario_db))"
    by (simp add: partial_rate_update_def scenario_db_def scenario_lender_def)
  have t1: "lendersTable (snd (updateLender partial_lender_update 5 scenario_db)) =
     [scenario_lender\<lparr> l_name := ''Partially Updated Lender'',
        l_email := Some ''newemail@example.com'', l_updated_at := 5 \<rparr>]"
    by (simp add: updateLender_def execute_select_def execute_update_def update_lenders_def
        where_id_eq_def in_int4_def Let_def set_lender_def lender_updateData_of_def
        partial_lender_update_def scenario_db_def scenario_lender_def)
  have t2: "mortgageRatesTable (snd (updateMortgageRate partial_rate_update 5 scenario_db)) =
     [scenario_rate\<lparr> r_interest_rate := 5.5, r_apr := 5.75, r_closing_costs := None,
        r_updated_at := 5 \<rparr>]"
    by (simp add: updateMortgageRate_def execute_select_def execute_update_def update_rates_def
        where_id_eq_def in_int4_def Let_def set_rate_def rate_updateData_of_def
        partial_rate_update_def scenario_db_def scenario_rate_def scenario_lender_def)
  note th = update_keeps_omitted_fields [of partial_lender_update scenario_db 5 partial_rate_update]
  from th h1 have c1: "list_all2
     (\<lambda>old new. if sint (l_id old) = ul_id partial_lender_update
                 then lender_update_frame partial_lender_update 5 old new else new = old)
     (lendersTable scenario_db)
     (lendersTable (snd (updateLender partial_lender_update 5 scenario_db)))"
    by blast
  from th h2 have "if \<exists>lid. ur_lender_id partial_rate_update = Some lid \<and>
                       lid \<notin> (\<lambda>l. sint (l_id l)) ` set (lendersTable scenario_db)
       then snd (updateMortgageRate partial_rate_update 5 scenario_db) = scenario_db \<and>
            (\<exists>e. fst (updateMortgageRate partial_rate_update 5 scenario_db) = Inl e)
       else list_all2
              (\<lambda>old new. if sint (r_id old) = ur_id partial_rate_update
                          then rate_update_frame partial_rate_update 5 old new else new = old)
              (mortgageRatesTable scenario_db)
              (mortgageRatesTable (snd (updateMortgageRate partial_rate_update 5 scenario_db))) \<and>
            (\<exists>old \<in> set (mortgageRatesTable scenario_db). \<exists>new.
               sint (r_id old) = ur_id partial_rate_update \<and>
               fst (updateMortgageRate partial_rate_update 5 scenario_db) = Inr new \<and>
               rate_update_frame partial_rate_update 5 old new)"
    by blast
  then have c2: "list_all2
     (\<lambda>old new. if sint (r_id old) = ur_id partial_rate_update
                 then rate_update_frame partial_rate_update 5 old new else new = old)
     (mortgageRatesTable scenario_db)
     (mortgageRatesTable (snd (updateMortgageRate partial_rate_update 5 scenario_db)))"
    unfolding if_not_P [OF ok] by (rule conjunct1)
  from h1 t1 c1 h2 t2 c2 show ?thesis by (intro conjI)
qed

end
